theory Spec2Isabelle
  imports Main "HOL-Library.Word"
begin

section \<open>Errors\<close>

text \<open>
  Go errors are modelled by their cause (what \<open>errors.Cause\<close> returns); the messages
  that \<open>errors.Wrap\<close>, \<open>errors.Wrapf\<close> and \<open>errors.WithMessage\<close> add at each call
  site are dropped.
  \<^item> \<open>NumOutOfRange n\<close>: "num must be greater than 0 and less than n" of the schedulers;
  \<^item> \<open>GpuNotEnough\<close>, \<open>CpuNotEnough\<close>, \<open>PortNotEnough\<close>: package xerrors;
  \<^item> \<open>ParseFloatError s\<close>: the \<open>*strconv.NumError\<close> of \<open>strconv.ParseFloat\<close> on \<open>s\<close>;
  \<^item> \<open>VersionNotFound\<close>: "container ... not found in ContainerVersionMap";
  \<^item> \<open>RuntimeError\<close>: a failure of the container runtime, the file system or the
    memory parser of package utils.
\<close>

datatype error =
    NumOutOfRange int
  | GpuNotEnough
  | CpuNotEnough
  | PortNotEnough
  | ContainerExisted
  | ParseFloatError string
  | VersionNotFound
  | RuntimeError string

section \<open>Memory strings (internal/models/memory.go)\<close>

text \<open>
  A call of a pure Go function either returns or panics.
\<close>

datatype 'a call = Panic | Return 'a

text \<open>
  \<open>float64\<close> is not modelled: the type of floats and the four operations that
  \<open>MemoryGetBytes\<close> applies to them are parameters. \<open>ParseFloat s\<close> is
  \<open>strconv.ParseFloat(s, 64)\<close>, \<open>of_uint64\<close> the conversion \<open>float64(u)\<close>,
  \<open>fmul\<close> the multiplication and \<open>to_int64\<close> the conversion \<open>int64(f)\<close>. None of
  them panics in Go, so each is a total function here.
\<close>

record 'f float64_ops =
  ParseFloat :: "string \<Rightarrow> error + 'f"
  of_uint64 :: "64 word \<Rightarrow> 'f"
  fmul :: "'f \<Rightarrow> 'f \<Rightarrow> 'f"
  to_int64 :: "'f \<Rightarrow> 64 word"

definition MemorySizeMap :: "string set" where
  "MemorySizeMap = {''KB'', ''MB'', ''GB'', ''TB''}"

definition MemoryUnitMap :: "string \<rightharpoonup> 64 word" where
  "MemoryUnitMap =
     [''KB'' \<mapsto> 1024,
      ''MB'' \<mapsto> 1024 * 1024,
      ''GB'' \<mapsto> 1024 * 1024 * 1024,
      ''TB'' \<mapsto> 1024 * 1024 * 1024 * 1024]"

text \<open>Reading a Go map at a missing key gives the zero value.\<close>

definition MemoryUnitMap_at :: "string \<Rightarrow> 64 word" where
  "MemoryUnitMap_at unit = (case MemoryUnitMap unit of None \<Rightarrow> 0 | Some u \<Rightarrow> u)"

text \<open>\<open>strings.HasSuffix\<close> and \<open>strings.TrimSuffix\<close>.\<close>

definition HasSuffix :: "string \<Rightarrow> string \<Rightarrow> bool" where
  "HasSuffix s suffix =
     (length suffix \<le> length s \<and> drop (length s - length suffix) s = suffix)"

definition TrimSuffix :: "string \<Rightarrow> string \<Rightarrow> string" where
  "TrimSuffix s suffix =
     (if HasSuffix s suffix then take (length s - length suffix) s else s)"

text \<open>
  \<open>size[len(size)-2:]\<close> panics (slice bounds out of range) when the string has
  fewer than two bytes.
\<close>

definition MemoryGetBytes :: "'f float64_ops \<Rightarrow> string \<Rightarrow> (error + 64 word) call" where
  "MemoryGetBytes ops sz =
     (if length sz < 2 then Panic
      else
        let unit = drop (length sz - 2) sz;
            valueStr = TrimSuffix sz unit
        in case ParseFloat ops valueStr of
             Inl err \<Rightarrow> Return (Inl err)
           | Inr v \<Rightarrow>
               Return (Inr (to_int64 ops (fmul ops v (of_uint64 ops (MemoryUnitMap_at unit))))))"

text \<open>
  An instance of the float operations for concrete inputs: floats that are small
  integers. \<open>ParseFloat_digits\<close> is \<open>strconv.ParseFloat\<close> on the strings of one
  to six decimal digits and on the empty string, which is a syntax error; it is used
  at no other input. Such an integer, the factors of \<open>MemoryUnitMap\<close>, the factor 0
  of a missing unit and their products (below \<open>10 ^ 6 * 2 ^ 40\<close>, which is below
  \<open>2 ^ 63\<close>) are exact in \<open>float64\<close> and in the range of \<open>int64\<close>. Outside that
  range Go leaves \<open>int64(f)\<close> to the implementation; \<open>int64_of_int\<close> takes the
  value of amd64 there, the least \<open>int64\<close>.
\<close>

definition digit_val :: "char \<Rightarrow> nat" where
  "digit_val c = of_char c - 48"

definition is_digit :: "char \<Rightarrow> bool" where
  "is_digit c = (48 \<le> (of_char c :: nat) \<and> (of_char c :: nat) \<le> 57)"

definition dec_val :: "string \<Rightarrow> nat" where
  "dec_val s = foldl (\<lambda>a c. 10 * a + digit_val c) 0 s"

definition ParseFloat_digits :: "string \<Rightarrow> error + int" where
  "ParseFloat_digits s =
     (if s \<noteq> [] \<and> length s \<le> 6 \<and> list_all is_digit s then Inr (int (dec_val s))
      else Inl (ParseFloatError s))"

definition int64_of_int :: "int \<Rightarrow> 64 word" where
  "int64_of_int t =
     (if - (2 ^ 63) \<le> t \<and> t < 2 ^ 63 then word_of_int t else word_of_int (- (2 ^ 63)))"

definition small_int_ops :: "int float64_ops" where
  "small_int_ops =
     \<lparr> ParseFloat = ParseFloat_digits,
       of_uint64 = (\<lambda>u. uint u),
       fmul = (\<lambda>a b. a * b),
       to_int64 = int64_of_int \<rparr>"

section \<open>Strings (packages strconv and strings)\<close>

text \<open>
  \<open>strconv.Atoi\<close> with its error dropped, as in \<open>ki, _ := strconv.Atoi(k)\<close>: an
  optional sign and decimal digits; 0 on a syntax error, the nearest 64-bit value on a
  range error. \<open>strconv.Itoa\<close>, \<open>strings.Join\<close>, \<open>strings.Trim\<close>, and
  \<open>strings.Split\<close> with a separator of one byte (the source splits on "," and "-").
\<close>

definition Atoi :: "string \<Rightarrow> int" where
  "Atoi s =
     (let neg = (s \<noteq> [] \<and> hd s = CHR ''-'');
          ds = (if s \<noteq> [] \<and> (hd s = CHR ''+'' \<or> hd s = CHR ''-'') then tl s else s)
      in if ds = [] \<or> \<not> list_all is_digit ds then 0
         else if neg then max (- (2 ^ 63)) (- int (dec_val ds))
         else min (2 ^ 63 - 1) (int (dec_val ds)))"

definition digit_char :: "nat \<Rightarrow> char" where
  "digit_char n = ''0123456789'' ! n"

fun digits :: "nat \<Rightarrow> string" where
  "digits n = (if n < 10 then [digit_char n] else digits (n div 10) @ [digit_char (n mod 10)])"

declare digits.simps [simp del]

definition Itoa :: "int \<Rightarrow> string" where
  "Itoa i = (if i < 0 then CHR ''-'' # digits (nat (- i)) else digits (nat i))"

fun Join :: "string list \<Rightarrow> string \<Rightarrow> string" where
  "Join [] sep = []"
| "Join [x] sep = x"
| "Join (x # y # ys) sep = x @ sep @ Join (y # ys) sep"

definition Trim :: "string \<Rightarrow> string \<Rightarrow> string" where
  "Trim s cutset =
     rev (dropWhile (\<lambda>c. c \<in> set cutset) (rev (dropWhile (\<lambda>c. c \<in> set cutset) s)))"

fun Split :: "string \<Rightarrow> char \<Rightarrow> string list" where
  "Split [] sep = [[]]"
| "Split (c # cs) sep =
     (if c = sep then [] # Split cs sep
      else (c # hd (Split cs sep)) # tl (Split cs sep))"

subsection \<open>Floats with a fraction\<close>





section \<open>Schedulers (package schedulers)\<close>

text \<open>
  A call on a scheduler returns with a new state and a result, or panics, or never
  returns: it blocks in \<open>Lock\<close> on a mutex that is held. \<open>sync.RWMutex\<close> is not reentrant, so
  this happens within one goroutine when a method that holds the lock calls a method
  that takes it. The mutex is the boolean field \<open>locked\<close> of the scheduler;
  \<open>Blocks s\<close> carries the state in which the call hangs.

  The status maps are Go maps, \<open>string \<rightharpoonup> byte\<close>; flag 0 is free, any other flag is
  in use. The order in which a \<open>range\<close> over a Go map visits the keys is not
  specified: it is the parameter \<open>order\<close> of each \<open>Apply\<close>, a list of the keys of
  the map. The goroutine \<open>go cs.putToEtcd()\<close>, which sends a snapshot to the work
  queue, is left out.
\<close>

type_synonym byte = "8 word"

datatype ('s, 'a) outcome = Returns 's 'a | Blocks 's | Panics 's

fun state_of :: "('s, 'a) outcome \<Rightarrow> 's" where
  "state_of (Returns s a) = s"
| "state_of (Blocks s) = s"
| "state_of (Panics s) = s"

text \<open>The loop \<open>for _, id := range ids { StatusMap[id] = 0 }\<close> of both schedulers.\<close>

definition restore_flags :: "string list \<Rightarrow> (string \<rightharpoonup> byte) \<Rightarrow> (string \<rightharpoonup> byte)" where
  "restore_flags ids m = fold (\<lambda>id m'. m'(id \<mapsto> 0)) ids m"

subsection \<open>GPU scheduler\<close>

record gpuScheduler =
  gpu_locked :: bool
  AvailableGpuNums :: int
  GpuStatusMap :: "string \<rightharpoonup> byte"
  GpuAllocMap :: "string \<rightharpoonup> string list"

definition gpu_Lock :: "gpuScheduler \<Rightarrow> gpuScheduler option" where
  "gpu_Lock gs = (if gpu_locked gs then None else Some (gs\<lparr>gpu_locked := True\<rparr>))"

definition gpu_Unlock :: "gpuScheduler \<Rightarrow> gpuScheduler" where
  "gpu_Unlock gs = gs\<lparr>gpu_locked := False\<rparr>"

definition gpu_Restore :: "string list \<Rightarrow> gpuScheduler \<Rightarrow> (gpuScheduler, unit) outcome" where
  "gpu_Restore gpus gs =
     (if int (length gpus) \<le> 0 \<or> int (length gpus) > AvailableGpuNums gs then Returns gs ()
      else case gpu_Lock gs of
             None \<Rightarrow> Blocks gs
           | Some gs1 \<Rightarrow>
               Returns (gpu_Unlock (gs1\<lparr>GpuStatusMap := restore_flags gpus (GpuStatusMap gs1)\<rparr>)) ())"

fun gpu_apply_loop ::
  "string list \<Rightarrow> int \<Rightarrow> (string \<rightharpoonup> byte) \<Rightarrow> string list \<Rightarrow> (string \<rightharpoonup> byte) \<times> string list" where
  "gpu_apply_loop [] num m availableGpus = (m, availableGpus)"
| "gpu_apply_loop (k # ks) num m availableGpus =
     (case m k of
        None \<Rightarrow> gpu_apply_loop ks num m availableGpus
      | Some v \<Rightarrow>
          if v = 0 then
            (if int (length (availableGpus @ [k])) = num then (m(k \<mapsto> 1), availableGpus @ [k])
             else gpu_apply_loop ks num (m(k \<mapsto> 1)) (availableGpus @ [k]))
          else gpu_apply_loop ks num m availableGpus)"

definition gpu_Apply ::
  "string list \<Rightarrow> int \<Rightarrow> gpuScheduler \<Rightarrow> (gpuScheduler, error + string list) outcome" where
  "gpu_Apply order num gs =
     (if num \<le> 0 \<or> num > AvailableGpuNums gs
      then Returns gs (Inl (NumOutOfRange (AvailableGpuNums gs)))
      else case gpu_Lock gs of
             None \<Rightarrow> Blocks gs
           | Some gs1 \<Rightarrow>
               (case gpu_apply_loop order num (GpuStatusMap gs1) [] of
                  (m, availableGpus) \<Rightarrow>
                    if int (length availableGpus) < num then
                      (case gpu_Restore availableGpus (gs1\<lparr>GpuStatusMap := m\<rparr>) of
                         Blocks gs2 \<Rightarrow> Blocks gs2
                       | Panics gs2 \<Rightarrow> Panics gs2
                       | Returns gs2 u \<Rightarrow> Returns (gpu_Unlock gs2) (Inl GpuNotEnough))
                    else Returns (gpu_Unlock (gs1\<lparr>GpuStatusMap := m\<rparr>)) (Inr availableGpus)))"

subsection \<open>CPU scheduler\<close>

text \<open>
  \<open>Apply\<close> collects the keys of the map as integers and sorts them, and then ranges
  over the slice with \<open>for k := range keys\<close>, so \<open>k\<close> is the index 0, 1, ... below
  \<open>len(keys)\<close> and not the key. Reading the map at a missing key gives flag 0.
  \<open>restore\<close> always returns nil.
\<close>

record cpuScheduler =
  cpu_locked :: bool
  AvailableCpuNums :: int
  CpuStatusMap :: "string \<rightharpoonup> byte"

definition cpu_Lock :: "cpuScheduler \<Rightarrow> cpuScheduler option" where
  "cpu_Lock cs = (if cpu_locked cs then None else Some (cs\<lparr>cpu_locked := True\<rparr>))"

definition cpu_Unlock :: "cpuScheduler \<Rightarrow> cpuScheduler" where
  "cpu_Unlock cs = cs\<lparr>cpu_locked := False\<rparr>"

definition cpu_restore :: "string list \<Rightarrow> cpuScheduler \<Rightarrow> cpuScheduler" where
  "cpu_restore cpuSet cs = cs\<lparr>CpuStatusMap := restore_flags cpuSet (CpuStatusMap cs)\<rparr>"

definition cpu_Restore :: "string list \<Rightarrow> cpuScheduler \<Rightarrow> (cpuScheduler, error option) outcome" where
  "cpu_Restore cpuSet cs =
     (case cpu_Lock cs of
        None \<Rightarrow> Blocks cs
      | Some cs1 \<Rightarrow> Returns (cpu_Unlock (cpu_restore cpuSet cs1)) None)"

fun cpu_apply_loop ::
  "nat list \<Rightarrow> int \<Rightarrow> (string \<rightharpoonup> byte) \<Rightarrow> string list \<Rightarrow> (string \<rightharpoonup> byte) \<times> string list" where
  "cpu_apply_loop [] num m applyCpus = (m, applyCpus)"
| "cpu_apply_loop (k # ks) num m applyCpus =
     (if (case m (Itoa (int k)) of None \<Rightarrow> 0 | Some v \<Rightarrow> v) = 0 then
        (if int (length (applyCpus @ [Itoa (int k)])) = num
         then (m(Itoa (int k) \<mapsto> 1), applyCpus @ [Itoa (int k)])
         else cpu_apply_loop ks num (m(Itoa (int k) \<mapsto> 1)) (applyCpus @ [Itoa (int k)]))
      else cpu_apply_loop ks num m applyCpus)"

definition cpu_Apply ::
  "string list \<Rightarrow> int \<Rightarrow> cpuScheduler \<Rightarrow> (cpuScheduler, error + string) outcome" where
  "cpu_Apply order num cs =
     (if num \<le> 0 \<or> num > AvailableCpuNums cs
      then Returns cs (Inl (NumOutOfRange (AvailableCpuNums cs)))
      else case cpu_Lock cs of
             None \<Rightarrow> Blocks cs
           | Some cs1 \<Rightarrow>
               (case cpu_apply_loop [0 ..< length (sort (map Atoi order))] num (CpuStatusMap cs1) [] of
                  (m, applyCpus) \<Rightarrow>
                    if int (length applyCpus) < num then
                      Returns (cpu_Unlock (cpu_restore applyCpus (cs1\<lparr>CpuStatusMap := m\<rparr>)))
                        (Inl CpuNotEnough)
                    else Returns (cpu_Unlock (cs1\<lparr>CpuStatusMap := m\<rparr>))
                           (Inr (Trim (Join applyCpus '','') '',''))))"

text \<open>
  \<open>InitCpuScheduler\<close> when the store holds no snapshot: the ids are the decimal
  numbers below the processor count \<open>cpuNum\<close>, all free.
\<close>

definition InitCpuScheduler :: "nat \<Rightarrow> cpuScheduler" where
  "InitCpuScheduler cpuNum =
     \<lparr> cpu_locked = False,
       AvailableCpuNums = int (length (map (\<lambda>i. Itoa (int i)) [0 ..< cpuNum])),
       CpuStatusMap = fold (\<lambda>cpu m. m(cpu \<mapsto> 0)) (map (\<lambda>i. Itoa (int i)) [0 ..< cpuNum]) Map.empty \<rparr>"

subsection \<open>Sequences of calls\<close>

text \<open>
  A finite sequence of \<open>Apply\<close> and \<open>Restore\<close> calls on one scheduler, each call
  made on the state the previous one left, whether that call returned or blocked.
  \<open>gpu_call_ok D\<close> and \<open>cpu_call_ok D\<close> say that a call is made on the pool with
  the ids \<open>D\<close>: the order of an \<open>Apply\<close> lists the keys once each, and a
  \<open>Restore\<close> passes members of the pool. \<open>cpu_ids_dense D\<close> says that the ids are
  the decimal numbers below their count, as \<open>InitCpuScheduler\<close> makes them.
\<close>

datatype gpu_call = GpuApply "string list" int | GpuRestore "string list"

fun gpu_call_state :: "gpu_call \<Rightarrow> gpuScheduler \<Rightarrow> gpuScheduler" where
  "gpu_call_state (GpuApply order num) gs = state_of (gpu_Apply order num gs)"
| "gpu_call_state (GpuRestore ids) gs = state_of (gpu_Restore ids gs)"

definition gpu_calls :: "gpu_call list \<Rightarrow> gpuScheduler \<Rightarrow> gpuScheduler" where
  "gpu_calls cs gs = fold gpu_call_state cs gs"

datatype cpu_call = CpuApply "string list" int | CpuRestore "string list"

fun cpu_call_state :: "cpu_call \<Rightarrow> cpuScheduler \<Rightarrow> cpuScheduler" where
  "cpu_call_state (CpuApply order num) cs = state_of (cpu_Apply order num cs)"
| "cpu_call_state (CpuRestore ids) cs = state_of (cpu_Restore ids cs)"

definition cpu_calls :: "cpu_call list \<Rightarrow> cpuScheduler \<Rightarrow> cpuScheduler" where
  "cpu_calls cls cs = fold cpu_call_state cls cs"

fun gpu_call_ok :: "string set \<Rightarrow> gpu_call \<Rightarrow> bool" where
  "gpu_call_ok D (GpuApply order num) = (distinct order \<and> set order = D)"
| "gpu_call_ok D (GpuRestore ids) = (set ids \<subseteq> D)"

fun cpu_call_ok :: "string set \<Rightarrow> cpu_call \<Rightarrow> bool" where
  "cpu_call_ok D (CpuApply order num) = (distinct order \<and> set order = D)"
| "cpu_call_ok D (CpuRestore ids) = (set ids \<subseteq> D)"

definition cpu_ids_dense :: "string set \<Rightarrow> bool" where
  "cpu_ids_dense D = (finite D \<and> (\<forall>i < card D. Itoa (int i) \<in> D))"

subsection \<open>Counting the pool\<close>

definition count_free :: "(string \<rightharpoonup> byte) \<Rightarrow> nat" where
  "count_free m = card {k. m k = Some 0}"

definition count_in_use :: "(string \<rightharpoonup> byte) \<Rightarrow> nat" where
  "count_in_use m = card {k. \<exists>v. m k = Some v \<and> v \<noteq> 0}"

section \<open>Port scheduler and version registry\<close>

text \<open>
  Modelled from the spec: the port scheduler, whose source file is not among the sources.
  Section 4.1: \<open>apply(n)\<close> returns \<open>n\<close> newly allocated ids in iteration order, or
  fails with \<open>PortNotEnough\<close> if fewer than \<open>n\<close> are free, reserving all or none;
  \<open>apply(0)\<close> fails; \<open>restore(ids)\<close> marks each id free and does not fail.
\<close>

record portScheduler =
  AvailablePortNums :: int
  PortStatusMap :: "string \<rightharpoonup> byte"

definition port_Apply ::
  "string list \<Rightarrow> int \<Rightarrow> portScheduler \<Rightarrow> portScheduler \<times> (error + string list)" where
  "port_Apply order num ps =
     (if num \<le> 0 then (ps, Inl (NumOutOfRange (AvailablePortNums ps)))
      else if int (length (filter (\<lambda>k. PortStatusMap ps k = Some 0) order)) < num
      then (ps, Inl PortNotEnough)
      else (ps\<lparr>PortStatusMap :=
                 fold (\<lambda>k m. m(k \<mapsto> 1))
                   (take (nat num) (filter (\<lambda>k. PortStatusMap ps k = Some 0) order))
                   (PortStatusMap ps)\<rparr>,
            Inr (take (nat num) (filter (\<lambda>k. PortStatusMap ps k = Some 0) order))))"

definition port_Restore :: "string list \<Rightarrow> portScheduler \<Rightarrow> portScheduler" where
  "port_Restore ports ps = ps\<lparr>PortStatusMap := restore_flags ports (PortStatusMap ps)\<rparr>"

text \<open>
  Modelled from the spec: the version registry \<open>vmap.ContainerVersionMap\<close>, whose
  source file is not among the sources. Section 4.3: a mapping with
  \<open>get(name) \<rightarrow> (version, present)\<close>, \<open>set(name, version)\<close> and \<open>remove(name)\<close>;
  \<open>get\<close> of an absent name gives version 0.
\<close>

definition version_Get :: "(string \<rightharpoonup> int) \<Rightarrow> string \<Rightarrow> int \<times> bool" where
  "version_Get vm name = (case vm name of None \<Rightarrow> (0, False) | Some v \<Rightarrow> (v, True))"

definition version_Set :: "string \<Rightarrow> int \<Rightarrow> (string \<rightharpoonup> int) \<Rightarrow> (string \<rightharpoonup> int)" where
  "version_Set name v vm = vm(name \<mapsto> v)"

definition version_Remove :: "string \<Rightarrow> (string \<rightharpoonup> int) \<Rightarrow> (string \<rightharpoonup> int)" where
  "version_Remove name vm = vm(name := None)"

section \<open>Replica-set controller (package services)\<close>

text \<open>
  The fields of the container record that the schedulers, the registry and the queue
  depend on: \<open>Config.Env\<close>, and of \<open>HostConfig\<close> the port bindings (a Go map, here
  the list of its entries in the order a \<open>range\<close> visits them), the device ids of each
  device request, the cpu-set string, the memory limit and the binds. Image, command,
  storage options, shm size, runtime name, networking, platform and creation time are
  left out.
\<close>

record EtcdContainerInfo =
  Config_Env :: "string list"
  HostConfig_PortBindings :: "(string \<times> string list) list"
  Resources_DeviceRequests :: "string list list"
  Resources_CpusetCpus :: string
  Resources_Memory :: int
  HostConfig_Binds :: "string list"
  ContainerName :: string
  Version :: int

record ContainerRun =
  ImageName :: string
  ReplicaSetName :: string
  GpuCount :: int
  CpuCount :: int
  Memory :: string
  Binds :: "(string \<times> string) list"
  Env :: "string list"
  Cmd :: "string list"
  ContainerPorts :: "string list"

datatype resource = Containers | Volumes | Gpus | Cpus | Ports

datatype work_item =
    PutKeyValue resource string EtcdContainerInfo
  | DelKey resource string

text \<open>
  What \<open>ContainerInspect\<close> returns, as far as the controller reads it.
  \<open>DeviceRequests\<close> is \<open>None\<close> for a nil slice.
\<close>

record inspect =
  State_Running :: bool
  State_Paused :: bool
  Inspect_DeviceRequests :: "string list list option"
  Inspect_CpusetCpus :: string
  Inspect_PortBindings :: "(string \<times> string list) list option"

text \<open>
  The collaborators of the controller are parameters: the answers of the container
  runtime, by container name or id; \<open>utils.ToBytes\<close>, whose source file is not among
  the sources; \<open>os.RemoveAll\<close>'s error; and the order in which each scheduler's
  \<open>Apply\<close> ranges over its map.
\<close>

record runtime =
  ContainerList :: "string \<Rightarrow> bool"
  ContainerCreate :: "string \<Rightarrow> error + string"
  ContainerStart :: "string \<Rightarrow> error option"
  ContainerInspect :: "string \<Rightarrow> error + inspect"
  ContainerRemove :: "string \<Rightarrow> error option"
  ToBytes :: "string \<Rightarrow> error + int"
  RemoveAll_error :: "string list \<Rightarrow> error option"
  gpu_order :: "string list"
  cpu_order :: "string list"
  port_order :: "string list"

text \<open>
  The process-wide state: the three schedulers, the version registry, the work queue
  (a FIFO of pending store writes) and the files below the working directory, each a
  list of path components.
\<close>

record world =
  GpuScheduler :: gpuScheduler
  CpuScheduler :: cpuScheduler
  PortScheduler :: portScheduler
  ContainerVersionMap :: "string \<rightharpoonup> int"
  Queue :: "work_item list"
  files :: "string list set"

fun then_do :: "('s, 'a) outcome \<Rightarrow> ('s \<Rightarrow> 'a \<Rightarrow> ('s, 'b) outcome) \<Rightarrow> ('s, 'b) outcome" where
  "then_do (Returns s a) f = f s a"
| "then_do (Blocks s) f = Blocks s"
| "then_do (Panics s) f = Panics s"

fun on_gpus :: "world \<Rightarrow> (gpuScheduler, 'a) outcome \<Rightarrow> (world, 'a) outcome" where
  "on_gpus w (Returns g a) = Returns (w\<lparr>GpuScheduler := g\<rparr>) a"
| "on_gpus w (Blocks g) = Blocks (w\<lparr>GpuScheduler := g\<rparr>)"
| "on_gpus w (Panics g) = Panics (w\<lparr>GpuScheduler := g\<rparr>)"

fun on_cpus :: "world \<Rightarrow> (cpuScheduler, 'a) outcome \<Rightarrow> (world, 'a) outcome" where
  "on_cpus w (Returns c a) = Returns (w\<lparr>CpuScheduler := c\<rparr>) a"
| "on_cpus w (Blocks c) = Blocks (w\<lparr>CpuScheduler := c\<rparr>)"
| "on_cpus w (Panics c) = Panics (w\<lparr>CpuScheduler := c\<rparr>)"

definition HasPrefix :: "string \<Rightarrow> string \<Rightarrow> bool" where
  "HasPrefix s p = (take (length p) s = p)"

text \<open>
  The loop over \<open>info.Config.Env\<close>: the first entry with the prefix
  \<open>CONTAINER_VERSION=\<close> is replaced; if there is none the entry is appended.
\<close>

fun set_version_env :: "string \<Rightarrow> string list \<Rightarrow> string list" where
  "set_version_env v [] = [v]"
| "set_version_env v (e # es) =
     (if HasPrefix e ''CONTAINER_VERSION='' then v # es else e # set_version_env v es)"

text \<open>
  The deferred function of \<open>runContainer\<close>, run when the variable \<open>err\<close> of the
  function body is not nil.
\<close>

definition clear_version :: "string \<Rightarrow> int \<Rightarrow> world \<Rightarrow> world" where
  "clear_version name version w =
     (if version = 1
      then w\<lparr>ContainerVersionMap := version_Remove name (ContainerVersionMap w)\<rparr>
      else w\<lparr>ContainerVersionMap := version_Set name (version - 1) (ContainerVersionMap w)\<rparr>)"

text \<open>
  \<open>startContainer\<close> returns the error of the runtime. The containers of the runtime
  are not part of the state, so the removal of a container that failed to start, and
  the goroutine that writes the ballast file, are left out.
\<close>

definition startContainer :: "runtime \<Rightarrow> string \<Rightarrow> error option" where
  "startContainer rt respId = ContainerStart rt respId"

text \<open>
  \<open>runContainer\<close>. The port block declares its own \<open>err\<close>
  (\<open>availableOSPorts, err := ...\<close>), so when it returns the error, the \<open>err\<close> that the
  deferred function reads is still nil. \<open>resp, err := ContainerCreate(...)\<close> and
  \<open>err = rs.startContainer(...)\<close> assign the variable of the function body.
  \<open>create_and_start\<close> is the function from "generate container name" on.
\<close>

definition create_and_start ::
  "runtime \<Rightarrow> string \<Rightarrow> int \<Rightarrow> bool \<Rightarrow> EtcdContainerInfo \<Rightarrow> world
   \<Rightarrow> (world, error + string \<times> string \<times> work_item) outcome" where
  "create_and_start rt name version onlyCreate info w =
     (let ctrVersionName = name @ ''-'' @ Itoa version;
          val = info\<lparr>ContainerName := ctrVersionName, Version := version\<rparr>
      in case ContainerCreate rt ctrVersionName of
           Inl err \<Rightarrow> Returns (clear_version name version w) (Inl err)
         | Inr respID \<Rightarrow>
             (if \<not> onlyCreate then
                (case startContainer rt respID of
                   Some err \<Rightarrow> Returns (clear_version name version w) (Inl err)
                 | None \<Rightarrow> Returns w (Inr (respID, ctrVersionName, PutKeyValue Containers name val)))
              else Returns w (Inr (respID, ctrVersionName, PutKeyValue Containers name val))))"

definition runContainer ::
  "runtime \<Rightarrow> string \<Rightarrow> EtcdContainerInfo \<Rightarrow> bool \<Rightarrow> world
   \<Rightarrow> (world, error + string \<times> string \<times> work_item) outcome" where
  "runContainer rt name info onlyCreate w =
     (let version = fst (version_Get (ContainerVersionMap w) name) + 1;
          w1 = w\<lparr>ContainerVersionMap := version_Set name version (ContainerVersionMap w)\<rparr>;
          info1 = info\<lparr>Config_Env :=
                    set_version_env (''CONTAINER_VERSION='' @ Itoa version) (Config_Env info)\<rparr>
      in if length (HostConfig_PortBindings info1) > 0 then
           (case port_Apply (port_order rt) (int (length (HostConfig_PortBindings info1)))
                   (PortScheduler w1) of
              (ps, Inl err) \<Rightarrow> Returns (w1\<lparr>PortScheduler := ps\<rparr>) (Inl err)
            | (ps, Inr availableOSPorts) \<Rightarrow>
                create_and_start rt name version onlyCreate
                  (info1\<lparr>HostConfig_PortBindings :=
                     map (\<lambda>(kv, p). (fst kv, [p]))
                       (zip (HostConfig_PortBindings info1) availableOSPorts)\<rparr>)
                  (w1\<lparr>PortScheduler := ps\<rparr>))
         else create_and_start rt name version onlyCreate info1 w1)"

definition lxcfsBind :: "string list" where
  "lxcfsBind =
     [''/var/lib/lxcfs/proc/cpuinfo:/proc/cpuinfo:rw'',
      ''/var/lib/lxcfs/proc/diskstats:/proc/diskstats:rw'',
      ''/var/lib/lxcfs/proc/meminfo:/proc/meminfo:rw'',
      ''/var/lib/lxcfs/proc/stat:/proc/stat:rw'',
      ''/var/lib/lxcfs/proc/swaps:/proc/swaps:rw'',
      ''/var/lib/lxcfs/proc/uptime:/proc/uptime:rw'']"

text \<open>
  \<open>RunGpuContainer\<close>, in the stages of the source: the failure handler after
  \<open>runContainer\<close>, the memory stage with the volume binds, the CPU stage, and the
  function itself with the GPU stage.
\<close>

definition run_failed ::
  "error \<Rightarrow> EtcdContainerInfo \<Rightarrow> world \<Rightarrow> (world, error + string \<times> string) outcome" where
  "run_failed err info w =
     then_do
       (if length (Resources_DeviceRequests info) > 0
        then on_gpus w (gpu_Restore (hd (Resources_DeviceRequests info)) (GpuScheduler w))
        else Returns w ())
       (\<lambda>w1 u. then_do
          (on_cpus w1 (cpu_Restore (Split (Resources_CpusetCpus info) CHR '','') (CpuScheduler w1)))
          (\<lambda>w2 e. Returns w2 (Inl err)))"

definition run_create ::
  "runtime \<Rightarrow> ContainerRun \<Rightarrow> EtcdContainerInfo \<Rightarrow> world
   \<Rightarrow> (world, error + string \<times> string) outcome" where
  "run_create rt spec info w =
     then_do
       (runContainer rt (ReplicaSetName spec)
          (info\<lparr>HostConfig_Binds :=
             map (\<lambda>(src, dest). src @ '':'' @ dest) (Binds spec) @ lxcfsBind\<rparr>) False w)
       (\<lambda>w1 r. case r of
          Inl err \<Rightarrow> run_failed err info w1
        | Inr (respID, containerName, kv) \<Rightarrow>
            Returns (w1\<lparr>Queue := Queue w1 @ [kv]\<rparr>) (Inr (respID, containerName)))"

definition run_memory ::
  "runtime \<Rightarrow> ContainerRun \<Rightarrow> string list \<Rightarrow> EtcdContainerInfo \<Rightarrow> world
   \<Rightarrow> (world, error + string \<times> string) outcome" where
  "run_memory rt spec uuids info w =
     (if Memory spec \<noteq> [] then
        (case ToBytes rt (Memory spec) of
           Inl err \<Rightarrow>
             then_do
               (if GpuCount spec > 0 then on_gpus w (gpu_Restore uuids (GpuScheduler w))
                else Returns w ())
               (\<lambda>w1 u. then_do
                  (if CpuCount spec > 0
                   then on_cpus w1 (cpu_Restore (Split (Resources_CpusetCpus info) CHR '','')
                          (CpuScheduler w1))
                   else Returns w1 None)
                  (\<lambda>w2 e. Returns w2 (Inl err)))
         | Inr memory \<Rightarrow> run_create rt spec (info\<lparr>Resources_Memory := memory\<rparr>) w)
      else run_create rt spec info w)"

definition run_cpu ::
  "runtime \<Rightarrow> ContainerRun \<Rightarrow> string list \<Rightarrow> EtcdContainerInfo \<Rightarrow> world
   \<Rightarrow> (world, error + string \<times> string) outcome" where
  "run_cpu rt spec uuids info w =
     (if CpuCount spec > 0 then
        then_do (on_cpus w (cpu_Apply (cpu_order rt) (CpuCount spec) (CpuScheduler w)))
          (\<lambda>w1 r. case r of
             Inl err \<Rightarrow>
               then_do
                 (if GpuCount spec > 0 then on_gpus w1 (gpu_Restore uuids (GpuScheduler w1))
                  else Returns w1 ())
                 (\<lambda>w2 u. Returns w2 (Inl err))
           | Inr cpusets \<Rightarrow> run_memory rt spec uuids (info\<lparr>Resources_CpusetCpus := cpusets\<rparr>) w1)
      else run_memory rt spec uuids info w)"

definition RunGpuContainer ::
  "runtime \<Rightarrow> ContainerRun \<Rightarrow> world \<Rightarrow> (world, error + string \<times> string) outcome" where
  "RunGpuContainer rt spec w =
     (if ContainerList rt (ReplicaSetName spec) then Returns w (Inl ContainerExisted)
      else
        let info = \<lparr> Config_Env = Env spec,
                     HostConfig_PortBindings =
                       map (\<lambda>port. (port @ ''/tcp'', [])) (remdups (ContainerPorts spec)),
                     Resources_DeviceRequests = [],
                     Resources_CpusetCpus = [],
                     Resources_Memory = 0,
                     HostConfig_Binds = [],
                     ContainerName = [],
                     Version = 0 \<rparr>
        in if GpuCount spec > 0 then
             then_do (on_gpus w (gpu_Apply (gpu_order rt) (GpuCount spec) (GpuScheduler w)))
               (\<lambda>w1 r. case r of
                  Inl err \<Rightarrow> Returns w1 (Inl err)
                | Inr uuids \<Rightarrow>
                    run_cpu rt spec uuids (info\<lparr>Resources_DeviceRequests := [uuids]\<rparr>) w1)
           else run_cpu rt spec [] info w)"

subsection \<open>Delete\<close>

definition containerStatusRunning :: "runtime \<Rightarrow> string \<Rightarrow> error + bool" where
  "containerStatusRunning rt name =
     (case ContainerInspect rt name of Inl err \<Rightarrow> Inl err | Inr resp \<Rightarrow> Inr (State_Running resp))"

definition containerStatusPaused :: "runtime \<Rightarrow> string \<Rightarrow> error + bool" where
  "containerStatusPaused rt name =
     (case ContainerInspect rt name of Inl err \<Rightarrow> Inl err | Inr resp \<Rightarrow> Inr (State_Paused resp))"

text \<open>
  \<open>DeviceRequests[0]\<close> panics on a slice that is empty and not nil, and \<open>v[0]\<close> on a
  port with no binding.
\<close>

definition containerDeviceRequestsDeviceIDs :: "runtime \<Rightarrow> string \<Rightarrow> (error + string list) call" where
  "containerDeviceRequestsDeviceIDs rt name =
     (case ContainerInspect rt name of
        Inl err \<Rightarrow> Return (Inl err)
      | Inr resp \<Rightarrow>
          (case Inspect_DeviceRequests resp of
             None \<Rightarrow> Return (Inr [])
           | Some [] \<Rightarrow> Panic
           | Some (d # ds) \<Rightarrow> Return (Inr d)))"

definition containerCpusetCpus :: "runtime \<Rightarrow> string \<Rightarrow> error + string list" where
  "containerCpusetCpus rt name =
     (case ContainerInspect rt name of
        Inl err \<Rightarrow> Inl err
      | Inr resp \<Rightarrow> Inr (Split (Inspect_CpusetCpus resp) CHR '',''))"

definition containerPortBindings :: "runtime \<Rightarrow> string \<Rightarrow> (error + string list) call" where
  "containerPortBindings rt name =
     (case ContainerInspect rt name of
        Inl err \<Rightarrow> Return (Inl err)
      | Inr resp \<Rightarrow>
          (case Inspect_PortBindings resp of
             None \<Rightarrow> Return (Inr [])
           | Some bindings \<Rightarrow>
               if list_ex (\<lambda>(k, v). v = []) bindings then Panic
               else Return (Inr (map (\<lambda>(k, v). hd v) bindings))))"

text \<open>
  \<open>filepath.Join\<close> on path components (empty components are dropped; separators and
  dots inside a component are not interpreted), and \<open>os.RemoveAll\<close>, which removes the
  path and everything below it; when it reports an error the files are left as they
  were.
\<close>

definition filepath_Join :: "string list \<Rightarrow> string list" where
  "filepath_Join elems = filter (\<lambda>e. e \<noteq> []) elems"

definition RemoveAll :: "string list \<Rightarrow> string list set \<Rightarrow> string list set" where
  "RemoveAll path fs = {f \<in> fs. take (length path) f \<noteq> path}"

definition deleteMergeMap :: "runtime \<Rightarrow> string \<Rightarrow> world \<Rightarrow> world \<times> error option" where
  "deleteMergeMap rt name w =
     (let path = filepath_Join [''merges'', hd (Split name CHR ''-'')]
      in case RemoveAll_error rt path of
           Some err \<Rightarrow> (w, Some err)
         | None \<Rightarrow> (w\<lparr>files := RemoveAll path (files w)\<rparr>, None))"

text \<open>
  \<open>DeleteContainer\<close>: the block that restores the resources of a running or paused
  container, the part from \<open>deleteMergeMap\<close> on, and the function itself.
\<close>

definition delete_restore :: "runtime \<Rightarrow> string \<Rightarrow> world \<Rightarrow> (world, error option) outcome" where
  "delete_restore rt ctrVersionName w =
     (case containerDeviceRequestsDeviceIDs rt ctrVersionName of
        Panic \<Rightarrow> Panics w
      | Return (Inl err) \<Rightarrow> Returns w (Some err)
      | Return (Inr uuids) \<Rightarrow>
          then_do (on_gpus w (gpu_Restore uuids (GpuScheduler w)))
            (\<lambda>w1 u. case containerCpusetCpus rt ctrVersionName of
               Inl err \<Rightarrow> Returns w1 (Some err)
             | Inr cpusets \<Rightarrow>
                 then_do (on_cpus w1 (cpu_Restore cpusets (CpuScheduler w1)))
                   (\<lambda>w2 e. case containerPortBindings rt ctrVersionName of
                      Panic \<Rightarrow> Panics w2
                    | Return (Inl err) \<Rightarrow> Returns w2 (Some err)
                    | Return (Inr ports) \<Rightarrow>
                        Returns (w2\<lparr>PortScheduler := port_Restore ports (PortScheduler w2)\<rparr>) None)))"

definition delete_record :: "runtime \<Rightarrow> string \<Rightarrow> int \<Rightarrow> world \<Rightarrow> (world, error option) outcome" where
  "delete_record rt name version w =
     (case deleteMergeMap rt name w of
        (w1, Some err) \<Rightarrow> Returns w1 (Some err)
      | (w1, None) \<Rightarrow>
          Returns
            (w1\<lparr>ContainerVersionMap :=
                   version_Remove (hd (Split name CHR ''-'')) (ContainerVersionMap w1),
                 Queue := Queue w1 @ [DelKey Containers name]\<rparr>)
            (ContainerRemove rt (name @ ''-'' @ Itoa version)))"

definition DeleteContainer :: "runtime \<Rightarrow> string \<Rightarrow> world \<Rightarrow> (world, error option) outcome" where
  "DeleteContainer rt name w =
     (case version_Get (ContainerVersionMap w) name of
        (version, False) \<Rightarrow> Returns w (Some VersionNotFound)
      | (version, True) \<Rightarrow>
          (case containerStatusRunning rt (name @ ''-'' @ Itoa version) of
             Inl err \<Rightarrow> Returns w (Some err)
           | Inr running \<Rightarrow>
               (case containerStatusPaused rt (name @ ''-'' @ Itoa version) of
                  Inl err \<Rightarrow> Returns w (Some err)
                | Inr pause \<Rightarrow>
                    then_do
                      (if running \<or> pause then delete_restore rt (name @ ''-'' @ Itoa version) w
                       else Returns w None)
                      (\<lambda>w1 r. case r of
                         Some err \<Rightarrow> Returns w1 (Some err)
                       | None \<Rightarrow> delete_record rt name version w1))))"

section \<open>Outcomes\<close>

fun result_of :: "('s, 'a) outcome \<Rightarrow> 'a option" where
  "result_of (Returns s a) = Some a"
| "result_of (Blocks s) = None"
| "result_of (Panics s) = None"

fun blocks :: "('s, 'a) outcome \<Rightarrow> bool" where
  "blocks (Blocks s) = True"
| "blocks (Returns s a) = False"
| "blocks (Panics s) = False"

section \<open>Concrete pools\<close>

definition gpus2 :: gpuScheduler where
  "gpus2 = \<lparr> gpu_locked = False, AvailableGpuNums = 2,
             GpuStatusMap = [''GPU-0'' \<mapsto> 0, ''GPU-1'' \<mapsto> 1], GpuAllocMap = Map.empty \<rparr>"

definition pools2 :: world where
  "pools2 =
     \<lparr> GpuScheduler = \<lparr> gpu_locked = False, AvailableGpuNums = 2,
                        GpuStatusMap = [''GPU-0'' \<mapsto> 0, ''GPU-1'' \<mapsto> 0],
                        GpuAllocMap = Map.empty \<rparr>,
       CpuScheduler = \<lparr> cpu_locked = False, AvailableCpuNums = 2,
                        CpuStatusMap = [''0'' \<mapsto> 0, ''1'' \<mapsto> 0] \<rparr>,
       PortScheduler = \<lparr> AvailablePortNums = 2,
                         PortStatusMap = [''40000'' \<mapsto> 0, ''40001'' \<mapsto> 0] \<rparr>,
       ContainerVersionMap = Map.empty,
       Queue = [],
       files = {} \<rparr>"

definition stopped :: inspect where
  "stopped = \<lparr> State_Running = False, State_Paused = False, Inspect_DeviceRequests = None,
               Inspect_CpusetCpus = [], Inspect_PortBindings = None \<rparr>"

definition runtime_ok :: runtime where
  "runtime_ok =
     \<lparr> ContainerList = (\<lambda>name. False),
       ContainerCreate = (\<lambda>name. Inr (''id-'' @ name)),
       ContainerStart = (\<lambda>respID. None),
       ContainerInspect = (\<lambda>name. Inr stopped),
       ContainerRemove = (\<lambda>name. None),
       ToBytes = (\<lambda>s. Inr 8589934592),
       RemoveAll_error = (\<lambda>path. None),
       gpu_order = [''GPU-0'', ''GPU-1''],
       cpu_order = [''0'', ''1''],
       port_order = [''40000'', ''40001''] \<rparr>"

definition runtime_create_fails :: runtime where
  "runtime_create_fails = runtime_ok\<lparr>ContainerCreate := (\<lambda>name. Inl (RuntimeError ''create''))\<rparr>"

definition job :: ContainerRun where
  "job = \<lparr> ImageName = ''img'', ReplicaSetName = ''job'', GpuCount = 1, CpuCount = 1,
           Memory = ''8GB'', Binds = [], Env = [], Cmd = [], ContainerPorts = [''22''] \<rparr>"

definition ports_exhausted :: world where
  "ports_exhausted = pools2\<lparr>PortScheduler :=
      \<lparr> AvailablePortNums = 2, PortStatusMap = [''40000'' \<mapsto> 1, ''40001'' \<mapsto> 1] \<rparr>\<rparr>"

definition info22 :: EtcdContainerInfo where
  "info22 = \<lparr> Config_Env = [], HostConfig_PortBindings = [(''22/tcp'', [])],
              Resources_DeviceRequests = [], Resources_CpusetCpus = [], Resources_Memory = 0,
              HostConfig_Binds = [], ContainerName = [], Version = 0 \<rparr>"

definition info_no_ports :: EtcdContainerInfo where
  "info_no_ports = info22\<lparr>HostConfig_PortBindings := []\<rparr>"

definition my_job_world :: world where
  "my_job_world = pools2\<lparr>ContainerVersionMap := [''my-job'' \<mapsto> 2, ''my'' \<mapsto> 1],
      files := {[''merges'', ''my'', ''my-job-1'']}\<rparr>"

definition gpus1 :: gpuScheduler where
  "gpus1 = \<lparr> gpu_locked = False, AvailableGpuNums = 1,
             GpuStatusMap = [''GPU-0'' \<mapsto> 1], GpuAllocMap = Map.empty \<rparr>"

definition cpus2 :: cpuScheduler where
  "cpus2 = \<lparr> cpu_locked = False, AvailableCpuNums = 2,
             CpuStatusMap = [''0'' \<mapsto> 0, ''1'' \<mapsto> 0] \<rparr>"

definition gpus_free1 :: gpuScheduler where
  "gpus_free1 = \<lparr> gpu_locked = False, AvailableGpuNums = 1,
             GpuStatusMap = [''GPU-0'' \<mapsto> 0], GpuAllocMap = Map.empty \<rparr>"

definition cpus_after_restore_empty :: cpuScheduler where
  "cpus_after_restore_empty =
     cpu_calls [CpuApply [''0'', ''1''] 1, CpuApply [''1'', ''0''] 1, CpuRestore [[]]]
       (InitCpuScheduler 2)"

section \<open>Properties of the memory parser\<close>

lemma MemoryGetBytes_short: "length sz < 2 \<Longrightarrow> MemoryGetBytes ops sz = Panic"
  by (simp add: MemoryGetBytes_def)

lemma MemoryGetBytes_long:
  "2 \<le> length sz \<Longrightarrow> \<exists>r. MemoryGetBytes ops sz = Return r"
  by (simp add: MemoryGetBytes_def Let_def split: sum.splits)







text \<open>
  C10. \<open>MemoryGetBytes\<close> returns a byte count or an error, without panicking, on
  every string of at least two bytes, and it panics on every shorter string: the length
  of the input is the only guard of the slice expression.
\<close>

theorem MemoryGetBytes_no_panic:
  "(2 \<le> length sz \<longrightarrow> (\<exists>r. MemoryGetBytes ops sz = Return r))
   \<and> (length sz < 2 \<longrightarrow> MemoryGetBytes ops sz = Panic)"
  using MemoryGetBytes_short MemoryGetBytes_long by blast

theorem MemoryGetBytes_no_panic_witness:
  "2 \<le> length ''8GB'' \<and> (\<exists>r. MemoryGetBytes small_int_ops ''8GB'' = Return r)
   \<and> length ''G'' < 2 \<and> MemoryGetBytes small_int_ops ''G'' = Panic"
  using MemoryGetBytes_no_panic [of "''8GB''" small_int_ops]
        MemoryGetBytes_no_panic [of "''G''" small_int_ops]
  by simp

text \<open>
  C8. The unit \<open>XB\<close> is not a key of \<open>MemoryUnitMap\<close>, and \<open>MemoryGetBytes\<close> on
  \<open>12XB\<close> returns the byte count 0 with no error: the factor read from the map at
  a missing key is 0.
\<close>

theorem MemoryGetBytes_malformed_unit:
  "''XB'' \<notin> MemorySizeMap \<and> MemoryUnitMap ''XB'' = None
   \<and> MemoryGetBytes small_int_ops ''12XB'' = Return (Inr 0)"
  by (simp add: MemorySizeMap_def MemoryUnitMap_def MemoryGetBytes_def MemoryUnitMap_at_def
      TrimSuffix_def HasSuffix_def small_int_ops_def ParseFloat_digits_def is_digit_def
      dec_val_def digit_val_def int64_of_int_def)

section \<open>Properties of the schedulers\<close>

text \<open>
  C3. On a pool of two GPUs of which \<open>GPU-1\<close> is in use, \<open>Apply(2)\<close> never returns,
  in either order of iteration: it reserves \<open>GPU-0\<close>, finds the batch short and calls
  \<open>Restore\<close>, which blocks on the lock that \<open>Apply\<close> holds. No error is returned,
  and \<open>GPU-0\<close>, free before the call, stays flagged in use.
\<close>

theorem gpu_Apply_partial_batch_blocks:
  "blocks (gpu_Apply [''GPU-0'', ''GPU-1''] 2 gpus2)
   \<and> blocks (gpu_Apply [''GPU-1'', ''GPU-0''] 2 gpus2)
   \<and> GpuStatusMap gpus2 ''GPU-0'' = Some 0
   \<and> GpuStatusMap (state_of (gpu_Apply [''GPU-0'', ''GPU-1''] 2 gpus2)) ''GPU-0'' = Some 1
   \<and> GpuStatusMap (state_of (gpu_Apply [''GPU-1'', ''GPU-0''] 2 gpus2)) ''GPU-0'' = Some 1"
  by (simp add: gpu_Apply_def gpus2_def gpu_Lock_def gpu_Restore_def)

subsection \<open>Restore\<close>

lemma restore_flags_apply:
  "restore_flags ids m k = (if k \<in> set ids then Some 0 else m k)"
  unfolding restore_flags_def
  by (induction ids arbitrary: m) auto

lemma restore_flags_idem: "restore_flags ids (restore_flags ids m) = restore_flags ids m"
  by (rule ext) (simp add: restore_flags_apply)

lemma dom_restore_flags: "dom (restore_flags ids m) = dom m \<union> set ids"
  by (auto simp: dom_def restore_flags_apply)

lemma gpu_Restore_unlocked:
  "\<not> gpu_locked gs \<Longrightarrow>
   gpu_Restore ids gs =
     Returns (if 0 < length ids \<and> int (length ids) \<le> AvailableGpuNums gs
              then gs\<lparr>GpuStatusMap := restore_flags ids (GpuStatusMap gs)\<rparr> else gs) ()"
  by (auto simp: gpu_Restore_def gpu_Lock_def gpu_Unlock_def)

lemma cpu_Restore_unlocked:
  "\<not> cpu_locked cs \<Longrightarrow>
   cpu_Restore ids cs = Returns (cs\<lparr>CpuStatusMap := restore_flags ids (CpuStatusMap cs)\<rparr>) None"
  by (auto simp: cpu_Restore_def cpu_Lock_def cpu_Unlock_def cpu_restore_def)

text \<open>
  C9, as the code has it. Called with the lock free, \<open>Restore\<close> of either scheduler
  returns without an error, and a second \<open>Restore\<close> of the same list leaves the state
  of the first. The CPU scheduler marks every passed id free, for every list. The GPU
  scheduler marks every passed id free when the list has between one and
  \<open>AvailableGpuNums\<close> entries, and otherwise leaves the pool as it is.
\<close>

theorem Restore_marks_free:
  assumes "\<not> gpu_locked gs" and "\<not> cpu_locked cs"
  shows "(\<exists>gs'. gpu_Restore gids gs = Returns gs' ()
            \<and> gpu_Restore gids gs' = Returns gs' ()
            \<and> (if 0 < length gids \<and> int (length gids) \<le> AvailableGpuNums gs
                then \<forall>k. GpuStatusMap gs' k = (if k \<in> set gids then Some 0 else GpuStatusMap gs k)
                else gs' = gs))
       \<and> (\<exists>cs'. cpu_Restore cids cs = Returns cs' None
            \<and> cpu_Restore cids cs' = Returns cs' None
            \<and> (\<forall>k. CpuStatusMap cs' k = (if k \<in> set cids then Some 0 else CpuStatusMap cs k)))"
  using assms
  by (simp add: gpu_Restore_unlocked cpu_Restore_unlocked restore_flags_apply restore_flags_idem)

theorem Restore_marks_free_witness:
  "\<not> gpu_locked gpus2 \<and> \<not> cpu_locked cpus2
   \<and> (\<exists>gs'. gpu_Restore [''GPU-1'', ''GPU-0''] gpus2 = Returns gs' ()
            \<and> gpu_Restore [''GPU-1'', ''GPU-0''] gs' = Returns gs' ()
            \<and> (if 0 < length [''GPU-1'', ''GPU-0'']
                    \<and> int (length [''GPU-1'', ''GPU-0'']) \<le> AvailableGpuNums gpus2
                then \<forall>k. GpuStatusMap gs' k
                       = (if k \<in> set [''GPU-1'', ''GPU-0''] then Some 0 else GpuStatusMap gpus2 k)
                else gs' = gpus2))
   \<and> (\<exists>cs'. cpu_Restore [''0'', ''0'', ''1''] cpus2 = Returns cs' None
            \<and> cpu_Restore [''0'', ''0'', ''1''] cs' = Returns cs' None
            \<and> (\<forall>k. CpuStatusMap cs' k
                   = (if k \<in> set [''0'', ''0'', ''1''] then Some 0 else CpuStatusMap cpus2 k)))"
proof -
  have h1: "\<not> gpu_locked gpus2" by (simp add: gpus2_def)
  have h2: "\<not> cpu_locked cpus2" by (simp add: cpus2_def)
  from Restore_marks_free [OF h1 h2, of "[''GPU-1'', ''GPU-0'']" "[''0'', ''0'', ''1'']"] h1 h2
  show ?thesis by blast
qed

text \<open>
  C9 as stated fails on a list longer than the pool: \<open>Restore\<close> of a list of two ids
  on a GPU pool of one returns at its length guard, and the passed id stays in use.
\<close>

theorem gpu_Restore_long_list_counterexample:
  "int (length [''GPU-0'', ''GPU-0'']) > AvailableGpuNums gpus1
   \<and> result_of (gpu_Restore [''GPU-0'', ''GPU-0''] gpus1) = Some ()
   \<and> GpuStatusMap (state_of (gpu_Restore [''GPU-0'', ''GPU-0''] gpus1)) ''GPU-0'' = Some 1"
  by (simp add: gpu_Restore_def gpus1_def)

subsection \<open>Membership and counts\<close>

lemma count_partition:
  assumes "finite (dom m)"
  shows "count_free m + count_in_use m = card (dom m)"
proof -
  have un: "{k. m k = Some 0} \<union> {k. \<exists>v. m k = Some v \<and> v \<noteq> 0} = dom m"
    by (auto simp: dom_def)
  have disj: "{k. m k = Some 0} \<inter> {k. \<exists>v. m k = Some v \<and> v \<noteq> 0} = {}"
    by auto
  have f1: "finite {k. m k = Some 0}"
    by (rule finite_subset [OF _ assms]) (auto simp: dom_def)
  have f2: "finite {k. \<exists>v. m k = Some v \<and> v \<noteq> 0}"
    by (rule finite_subset [OF _ assms]) (auto simp: dom_def)
  show ?thesis
    unfolding count_free_def count_in_use_def
    using card_Un_disjoint [OF f1 f2 disj] un by simp
qed

lemma dom_gpu_apply_loop: "dom (fst (gpu_apply_loop ks num m acc)) = dom m"
  by (induction ks arbitrary: m acc) (auto split: option.splits)

lemma dom_gpu_Restore:
  "set ids \<subseteq> dom (GpuStatusMap gs) \<Longrightarrow>
   dom (GpuStatusMap (state_of (gpu_Restore ids gs))) = dom (GpuStatusMap gs)"
  by (auto simp: gpu_Restore_def gpu_Lock_def gpu_Unlock_def dom_restore_flags)

lemma total_gpu_Restore:
  "AvailableGpuNums (state_of (gpu_Restore ids gs)) = AvailableGpuNums gs"
  by (auto simp: gpu_Restore_def gpu_Lock_def gpu_Unlock_def)

lemma gpu_Restore_locked:
  "gpu_locked gs \<Longrightarrow>
   gpu_Restore ids gs =
     (if int (length ids) \<le> 0 \<or> int (length ids) > AvailableGpuNums gs then Returns gs ()
      else Blocks gs)"
  by (simp add: gpu_Restore_def gpu_Lock_def)

lemma gpu_Apply_keeps:
  "dom (GpuStatusMap (state_of (gpu_Apply order num gs))) = dom (GpuStatusMap gs)
   \<and> AvailableGpuNums (state_of (gpu_Apply order num gs)) = AvailableGpuNums gs"
proof (cases "num \<le> 0 \<or> num > AvailableGpuNums gs \<or> gpu_locked gs")
  case True
  then show ?thesis by (auto simp: gpu_Apply_def gpu_Lock_def)
next
  case False
  obtain m av where l: "gpu_apply_loop order num (GpuStatusMap gs) [] = (m, av)"
    by (cases "gpu_apply_loop order num (GpuStatusMap gs) []")
  have d: "dom m = dom (GpuStatusMap gs)"
    using dom_gpu_apply_loop [of order num "GpuStatusMap gs" "[]"] l by simp
  show ?thesis
    using False l d
    by (simp add: gpu_Apply_def gpu_Lock_def gpu_Unlock_def gpu_Restore_locked)
qed

lemma gpu_call_keeps:
  "gpu_call_ok (dom (GpuStatusMap gs)) c \<Longrightarrow>
   dom (GpuStatusMap (gpu_call_state c gs)) = dom (GpuStatusMap gs)
   \<and> AvailableGpuNums (gpu_call_state c gs) = AvailableGpuNums gs"
  by (cases c) (simp_all add: gpu_Apply_keeps dom_gpu_Restore total_gpu_Restore)

lemma gpu_calls_keep:
  "list_all (gpu_call_ok (dom (GpuStatusMap gs))) cls \<Longrightarrow>
   dom (GpuStatusMap (gpu_calls cls gs)) = dom (GpuStatusMap gs)
   \<and> AvailableGpuNums (gpu_calls cls gs) = AvailableGpuNums gs"
  unfolding gpu_calls_def
proof (induction cls arbitrary: gs)
  case Nil
  then show ?case by simp
next
  case (Cons c cls)
  have k: "dom (GpuStatusMap (gpu_call_state c gs)) = dom (GpuStatusMap gs)
     \<and> AvailableGpuNums (gpu_call_state c gs) = AvailableGpuNums gs"
    using Cons.prems gpu_call_keeps by simp
  then have "list_all (gpu_call_ok (dom (GpuStatusMap (gpu_call_state c gs)))) cls"
    using Cons.prems by simp
  from Cons.IH [OF this] k show ?case by simp
qed

lemma dom_cpu_apply_loop:
  "\<forall>k \<in> set ks. Itoa (int k) \<in> dom m \<Longrightarrow> dom (fst (cpu_apply_loop ks num m acc)) = dom m"
  by (induction ks arbitrary: m acc) (auto split: option.splits)

lemma set_cpu_apply_loop:
  "x \<in> set (snd (cpu_apply_loop ks num m acc)) \<Longrightarrow>
   x \<in> set acc \<or> x \<in> (\<lambda>k. Itoa (int k)) ` set ks"
proof (induction ks arbitrary: m acc)
  case Nil
  then show ?case by simp
next
  case (Cons k ks)
  show ?case
  proof (cases "(case m (Itoa (int k)) of None \<Rightarrow> 0 | Some v \<Rightarrow> v) = 0")
    case False
    then have "x \<in> set (snd (cpu_apply_loop ks num m acc))"
      using Cons.prems by simp
    from Cons.IH [OF this] show ?thesis by auto
  next
    case True
    show ?thesis
    proof (cases "int (length (acc @ [Itoa (int k)])) = num")
      case True
      with \<open>(case m (Itoa (int k)) of None \<Rightarrow> 0 | Some v \<Rightarrow> v) = 0\<close> Cons.prems
      show ?thesis by auto
    next
      case False
      with True Cons.prems
      have "x \<in> set (snd (cpu_apply_loop ks num (m(Itoa (int k) \<mapsto> 1)) (acc @ [Itoa (int k)])))"
        by simp
      from Cons.IH [OF this] show ?thesis by auto
    qed
  qed
qed

lemma cpu_Restore_keeps:
  "set ids \<subseteq> dom (CpuStatusMap cs) \<Longrightarrow>
   dom (CpuStatusMap (state_of (cpu_Restore ids cs))) = dom (CpuStatusMap cs)
   \<and> AvailableCpuNums (state_of (cpu_Restore ids cs)) = AvailableCpuNums cs"
  by (auto simp: cpu_Restore_def cpu_Lock_def cpu_Unlock_def cpu_restore_def dom_restore_flags)

lemma cpu_Apply_keeps:
  assumes dense: "cpu_ids_dense (dom (CpuStatusMap cs))"
    and ord: "distinct order" "set order = dom (CpuStatusMap cs)"
  shows "dom (CpuStatusMap (state_of (cpu_Apply order num cs))) = dom (CpuStatusMap cs)
   \<and> AvailableCpuNums (state_of (cpu_Apply order num cs)) = AvailableCpuNums cs"
proof (cases "num \<le> 0 \<or> num > AvailableCpuNums cs \<or> cpu_locked cs")
  case True
  then show ?thesis by (auto simp: cpu_Apply_def cpu_Lock_def)
next
  case False
  let ?ks = "[0 ..< length (sort (map Atoi order))]"
  have len: "length (sort (map Atoi order)) = card (dom (CpuStatusMap cs))"
    using ord distinct_card [of order] by simp
  have mem: "\<forall>k \<in> set ?ks. Itoa (int k) \<in> dom (CpuStatusMap cs)"
    using dense len by (simp add: cpu_ids_dense_def)
  obtain m ap where l: "cpu_apply_loop ?ks num (CpuStatusMap cs) [] = (m, ap)"
    by (cases "cpu_apply_loop ?ks num (CpuStatusMap cs) []")
  have d: "dom m = dom (CpuStatusMap cs)"
    using dom_cpu_apply_loop [OF mem, of num "[]"] l by simp
  have s: "set ap \<subseteq> dom m"
  proof
    fix x assume "x \<in> set ap"
    then have "x \<in> set (snd (cpu_apply_loop ?ks num (CpuStatusMap cs) []))"
      using l by simp
    from set_cpu_apply_loop [OF this] mem d show "x \<in> dom m" by auto
  qed
  show ?thesis
    using False l d s
    by (auto simp: cpu_Apply_def cpu_Lock_def cpu_Unlock_def cpu_restore_def dom_restore_flags)
qed

lemma cpu_call_keeps:
  "cpu_ids_dense (dom (CpuStatusMap cs)) \<Longrightarrow> cpu_call_ok (dom (CpuStatusMap cs)) c \<Longrightarrow>
   dom (CpuStatusMap (cpu_call_state c cs)) = dom (CpuStatusMap cs)
   \<and> AvailableCpuNums (cpu_call_state c cs) = AvailableCpuNums cs"
  by (cases c) (simp_all add: cpu_Apply_keeps cpu_Restore_keeps)

lemma cpu_calls_keep:
  "cpu_ids_dense (dom (CpuStatusMap cs)) \<Longrightarrow>
   list_all (cpu_call_ok (dom (CpuStatusMap cs))) cls \<Longrightarrow>
   dom (CpuStatusMap (cpu_calls cls cs)) = dom (CpuStatusMap cs)
   \<and> AvailableCpuNums (cpu_calls cls cs) = AvailableCpuNums cs"
  unfolding cpu_calls_def
proof (induction cls arbitrary: cs)
  case Nil
  then show ?case by simp
next
  case (Cons c cls)
  have k: "dom (CpuStatusMap (cpu_call_state c cs)) = dom (CpuStatusMap cs)
     \<and> AvailableCpuNums (cpu_call_state c cs) = AvailableCpuNums cs"
    using Cons.prems cpu_call_keeps by simp
  then have "cpu_ids_dense (dom (CpuStatusMap (cpu_call_state c cs)))"
    and "list_all (cpu_call_ok (dom (CpuStatusMap (cpu_call_state c cs)))) cls"
    using Cons.prems by simp_all
  from Cons.IH [OF this] k show ?case by simp
qed


text \<open>
  C2, as the code has it. On a GPU pool whose cached total is the number of its ids,
  and a CPU pool whose ids are the decimal numbers below the cached total, every
  finite sequence of \<open>Apply\<close> calls and of \<open>Restore\<close> calls that pass members of the
  pool leaves the set of ids as it was, and free plus in-use equal to the cached total.
\<close>

theorem pool_membership_fixed:
  assumes "finite (dom (GpuStatusMap gs))"
    and "int (card (dom (GpuStatusMap gs))) = AvailableGpuNums gs"
    and "list_all (gpu_call_ok (dom (GpuStatusMap gs))) gcalls"
    and "cpu_ids_dense (dom (CpuStatusMap cs))"
    and "int (card (dom (CpuStatusMap cs))) = AvailableCpuNums cs"
    and "list_all (cpu_call_ok (dom (CpuStatusMap cs))) ccalls"
  shows "dom (GpuStatusMap (gpu_calls gcalls gs)) = dom (GpuStatusMap gs)
    \<and> int (count_free (GpuStatusMap (gpu_calls gcalls gs))
            + count_in_use (GpuStatusMap (gpu_calls gcalls gs)))
        = AvailableGpuNums (gpu_calls gcalls gs)
    \<and> dom (CpuStatusMap (cpu_calls ccalls cs)) = dom (CpuStatusMap cs)
    \<and> int (count_free (CpuStatusMap (cpu_calls ccalls cs))
            + count_in_use (CpuStatusMap (cpu_calls ccalls cs)))
        = AvailableCpuNums (cpu_calls ccalls cs)"
proof -
  have g: "dom (GpuStatusMap (gpu_calls gcalls gs)) = dom (GpuStatusMap gs)
      \<and> AvailableGpuNums (gpu_calls gcalls gs) = AvailableGpuNums gs"
    using assms(3) by (rule gpu_calls_keep)
  have c: "dom (CpuStatusMap (cpu_calls ccalls cs)) = dom (CpuStatusMap cs)
      \<and> AvailableCpuNums (cpu_calls ccalls cs) = AvailableCpuNums cs"
    using assms(4) assms(6) by (rule cpu_calls_keep)
  have fc: "finite (dom (CpuStatusMap cs))"
    using assms(4) by (simp add: cpu_ids_dense_def)
  have "count_free (GpuStatusMap (gpu_calls gcalls gs))
          + count_in_use (GpuStatusMap (gpu_calls gcalls gs)) = card (dom (GpuStatusMap gs))"
    using count_partition [of "GpuStatusMap (gpu_calls gcalls gs)"] g assms(1) by simp
  moreover have "count_free (CpuStatusMap (cpu_calls ccalls cs))
          + count_in_use (CpuStatusMap (cpu_calls ccalls cs)) = card (dom (CpuStatusMap cs))"
    using count_partition [of "CpuStatusMap (cpu_calls ccalls cs)"] c fc by simp
  ultimately show ?thesis
    using g c assms(2) assms(5) by simp
qed

lemma cpu_ids_dense_cpus2: "cpu_ids_dense (dom (CpuStatusMap cpus2))"
  by (auto simp: cpu_ids_dense_def cpus2_def Itoa_def digits.simps digit_char_def
      less_Suc_eq numeral_2_eq_2)

theorem pool_membership_fixed_witness:
  "finite (dom (GpuStatusMap gpus2))
   \<and> int (card (dom (GpuStatusMap gpus2))) = AvailableGpuNums gpus2
   \<and> list_all (gpu_call_ok (dom (GpuStatusMap gpus2)))
        [GpuApply [''GPU-0'', ''GPU-1''] 1, GpuRestore [''GPU-0'', ''GPU-1'']]
   \<and> cpu_ids_dense (dom (CpuStatusMap cpus2))
   \<and> int (card (dom (CpuStatusMap cpus2))) = AvailableCpuNums cpus2
   \<and> list_all (cpu_call_ok (dom (CpuStatusMap cpus2)))
        [CpuApply [''1'', ''0''] 2, CpuRestore [''0'']]
   \<and> dom (GpuStatusMap (gpu_calls [GpuApply [''GPU-0'', ''GPU-1''] 1,
          GpuRestore [''GPU-0'', ''GPU-1'']] gpus2)) = dom (GpuStatusMap gpus2)
   \<and> int (count_free (GpuStatusMap (gpu_calls [GpuApply [''GPU-0'', ''GPU-1''] 1,
               GpuRestore [''GPU-0'', ''GPU-1'']] gpus2))
          + count_in_use (GpuStatusMap (gpu_calls [GpuApply [''GPU-0'', ''GPU-1''] 1,
               GpuRestore [''GPU-0'', ''GPU-1'']] gpus2)))
       = AvailableGpuNums (gpu_calls [GpuApply [''GPU-0'', ''GPU-1''] 1,
               GpuRestore [''GPU-0'', ''GPU-1'']] gpus2)
   \<and> dom (CpuStatusMap (cpu_calls [CpuApply [''1'', ''0''] 2, CpuRestore [''0'']] cpus2))
       = dom (CpuStatusMap cpus2)
   \<and> int (count_free (CpuStatusMap (cpu_calls [CpuApply [''1'', ''0''] 2, CpuRestore [''0'']] cpus2))
          + count_in_use (CpuStatusMap (cpu_calls [CpuApply [''1'', ''0''] 2, CpuRestore [''0'']] cpus2)))
       = AvailableCpuNums (cpu_calls [CpuApply [''1'', ''0''] 2, CpuRestore [''0'']] cpus2)"
proof -
  have h1: "finite (dom (GpuStatusMap gpus2))" by (simp add: gpus2_def)
  have h2: "int (card (dom (GpuStatusMap gpus2))) = AvailableGpuNums gpus2"
    by (simp add: gpus2_def)
  have h3: "list_all (gpu_call_ok (dom (GpuStatusMap gpus2)))
        [GpuApply [''GPU-0'', ''GPU-1''] 1, GpuRestore [''GPU-0'', ''GPU-1'']]"
    by (auto simp: gpus2_def)
  have h4: "cpu_ids_dense (dom (CpuStatusMap cpus2))" by (rule cpu_ids_dense_cpus2)
  have h5: "int (card (dom (CpuStatusMap cpus2))) = AvailableCpuNums cpus2"
    by (simp add: cpus2_def)
  have h6: "list_all (cpu_call_ok (dom (CpuStatusMap cpus2)))
        [CpuApply [''1'', ''0''] 2, CpuRestore [''0'']]"
    by (auto simp: cpus2_def)
  from pool_membership_fixed [OF h1 h2 h3 h4 h5 h6] h1 h2 h3 h4 h5 h6
  show ?thesis by blast
qed

text \<open>
  C2 as stated fails when \<open>Restore\<close> is passed an id that is not in the pool: the id
  is added to the map as a free slot. A pool with the only id \<open>GPU-0\<close> and total 1
  has two ids and two free slots after \<open>Restore\<close> of \<open>GPU-9\<close>.
\<close>

theorem pool_membership_counterexample:
  "dom (GpuStatusMap (gpu_calls [GpuRestore [''GPU-9'']] gpus_free1)) \<noteq> dom (GpuStatusMap gpus_free1)
   \<and> int (count_free (GpuStatusMap (gpu_calls [GpuRestore [''GPU-9'']] gpus_free1))
          + count_in_use (GpuStatusMap (gpu_calls [GpuRestore [''GPU-9'']] gpus_free1)))
       \<noteq> AvailableGpuNums (gpu_calls [GpuRestore [''GPU-9'']] gpus_free1)"
proof -
  have m: "GpuStatusMap (gpu_calls [GpuRestore [''GPU-9'']] gpus_free1)
      = [''GPU-0'' \<mapsto> 0, ''GPU-9'' \<mapsto> 0]"
    and t: "AvailableGpuNums (gpu_calls [GpuRestore [''GPU-9'']] gpus_free1) = 1"
    by (simp_all add: gpu_calls_def gpus_free1_def gpu_Restore_def gpu_Lock_def gpu_Unlock_def
        restore_flags_def)
  have "count_free [''GPU-0'' \<mapsto> 0, ''GPU-9'' \<mapsto> (0::byte)]
        + count_in_use [''GPU-0'' \<mapsto> 0, ''GPU-9'' \<mapsto> (0::byte)] = 2"
    using count_partition [of "[''GPU-0'' \<mapsto> 0, ''GPU-9'' \<mapsto> (0::byte)]"] by simp
  with m t show ?thesis by (simp add: gpus_free1_def)
qed


subsection \<open>Apply\<close>

text \<open>
  What \<open>Apply\<close> does when it returns. A successful \<open>Apply(num)\<close> of the GPU scheduler
  returns \<open>num\<close> distinct ids, each free before and in use after, and changes no other
  flag; with no free GPU it returns \<open>GpuNotEnough\<close> and the state it was given.
\<close>

lemma gpu_apply_loop_spec:
  "gpu_apply_loop ks num m acc = (m', acc') \<Longrightarrow>
   \<exists>new. acc' = acc @ new
     \<and> m' = (\<lambda>x. if x \<in> set new then Some 1 else m x)
     \<and> (\<forall>k \<in> set new. m k = Some 0)
     \<and> distinct new
     \<and> (int (length acc) < num \<longrightarrow> int (length acc') \<le> num)"
proof (induction ks arbitrary: m acc)
  case Nil
  then have "acc' = acc @ [] \<and> m' = (\<lambda>x. if x \<in> set [] then Some 1 else m x)"
    by auto
  then show ?case by fastforce
next
  case (Cons k ks)
  show ?case
  proof (cases "m k = Some 0")
    case False
    then have "gpu_apply_loop ks num m acc = (m', acc')"
      using Cons.prems by (auto split: option.splits if_splits)
    from Cons.IH [OF this] show ?thesis .
  next
    case free: True
    show ?thesis
    proof (cases "int (length (acc @ [k])) = num")
      case True
      then have "acc' = acc @ [k]" and "m' = m(k \<mapsto> 1)"
        using Cons.prems free by auto
      then have "acc' = acc @ [k] \<and> m' = (\<lambda>x. if x \<in> set [k] then Some 1 else m x)
          \<and> (\<forall>j \<in> set [k]. m j = Some 0) \<and> distinct [k]
          \<and> (int (length acc) < num \<longrightarrow> int (length acc') \<le> num)"
        using free True by auto
      then show ?thesis by blast
    next
      case False
      then have "gpu_apply_loop ks num (m(k \<mapsto> 1)) (acc @ [k]) = (m', acc')"
        using Cons.prems free by auto
      from Cons.IH [OF this] obtain new where
        n: "acc' = (acc @ [k]) @ new"
          "m' = (\<lambda>x. if x \<in> set new then Some 1 else (m(k \<mapsto> 1)) x)"
          "\<forall>j \<in> set new. (m(k \<mapsto> 1)) j = Some 0"
          "distinct new"
          "int (length (acc @ [k])) < num \<longrightarrow> int (length acc') \<le> num"
        by blast
      have notin: "k \<notin> set new" using n(3) by auto
      have "acc' = acc @ (k # new)" using n(1) by simp
      moreover have "m' = (\<lambda>x. if x \<in> set (k # new) then Some 1 else m x)"
        using n(2) by auto
      moreover have "\<forall>j \<in> set (k # new). m j = Some 0"
        using n(3) free by (auto split: if_splits)
      moreover have "distinct (k # new)" using n(4) notin by simp
      moreover have "int (length acc) < num \<longrightarrow> int (length acc') \<le> num"
        using n(5) False by auto
      ultimately show ?thesis by blast
    qed
  qed
qed

lemma gpu_Apply_success:
  assumes "gpu_Apply order num gs = Returns gs' (Inr ids)"
  shows "int (length ids) = num \<and> distinct ids
    \<and> (\<forall>k \<in> set ids. GpuStatusMap gs k = Some 0 \<and> GpuStatusMap gs' k = Some 1)
    \<and> (\<forall>k. k \<notin> set ids \<longrightarrow> GpuStatusMap gs' k = GpuStatusMap gs k)"
proof -
  have ok: "\<not> (num \<le> 0 \<or> num > AvailableGpuNums gs)" and unl: "\<not> gpu_locked gs"
    using assms by (auto simp: gpu_Apply_def gpu_Lock_def split: if_splits)
  obtain m av where l: "gpu_apply_loop order num (GpuStatusMap gs) [] = (m, av)"
    by (cases "gpu_apply_loop order num (GpuStatusMap gs) []")
  have res: "\<not> int (length av) < num \<and> ids = av \<and> GpuStatusMap gs' = m"
    using assms ok unl l
    by (auto simp: gpu_Apply_def gpu_Lock_def gpu_Unlock_def split: if_splits outcome.splits)
  from gpu_apply_loop_spec [OF l] obtain new where
    n: "av = [] @ new" "m = (\<lambda>x. if x \<in> set new then Some 1 else GpuStatusMap gs x)"
       "\<forall>k \<in> set new. GpuStatusMap gs k = Some 0" "distinct new"
       "int (length ([] :: string list)) < num \<longrightarrow> int (length av) \<le> num"
    by blast
  have "int (length ids) = num" using res n(5) ok by simp
  then show ?thesis using res n by simp
qed

lemma gpu_Apply_none_free:
  assumes "\<not> gpu_locked gs" and "0 < num" and "num \<le> AvailableGpuNums gs"
    and "\<forall>k. GpuStatusMap gs k \<noteq> Some 0"
  shows "gpu_Apply order num gs = Returns gs (Inl GpuNotEnough)"
proof -
  obtain m av where l: "gpu_apply_loop order num (GpuStatusMap gs) [] = (m, av)"
    by (cases "gpu_apply_loop order num (GpuStatusMap gs) []")
  from gpu_apply_loop_spec [OF l] obtain new where
    n: "av = [] @ new" "m = (\<lambda>x. if x \<in> set new then Some 1 else GpuStatusMap gs x)"
       "\<forall>k \<in> set new. GpuStatusMap gs k = Some 0"
    by blast
  have "new = []" using n(3) assms(4) by (cases new) auto
  then have "av = []" and "m = GpuStatusMap gs" using n by auto
  then show ?thesis
    using assms l by (simp add: gpu_Apply_def gpu_Lock_def gpu_Unlock_def gpu_Restore_def)
qed

text \<open>
  On a CPU pool with dense ids, \<open>Apply\<close> that fails with \<open>CpuNotEnough\<close> returns the
  state it was given, and a successful \<open>Apply(num)\<close> returns the cpu-set string of
  \<open>num\<close> ids in ascending order, each free before and in use after.
\<close>

lemma cpu_apply_loop_spec:
  "cpu_apply_loop ks num m acc = (m', acc') \<Longrightarrow> sorted_wrt (<) ks \<Longrightarrow>
   \<exists>js. acc' = acc @ map (\<lambda>k. Itoa (int k)) js
     \<and> m' = (\<lambda>x. if x \<in> (\<lambda>k. Itoa (int k)) ` set js then Some 1 else m x)
     \<and> (\<forall>j \<in> set js. (case m (Itoa (int j)) of None \<Rightarrow> 0 | Some v \<Rightarrow> v) = 0)
     \<and> set js \<subseteq> set ks \<and> sorted_wrt (<) js
     \<and> (int (length acc) < num \<longrightarrow> int (length acc') \<le> num)"
proof (induction ks arbitrary: m acc)
  case Nil
  then have "acc' = acc @ map (\<lambda>k. Itoa (int k)) []
      \<and> m' = (\<lambda>x. if x \<in> (\<lambda>k. Itoa (int k)) ` set [] then Some 1 else m x)"
    by auto
  then show ?case by fastforce
next
  case (Cons k ks)
  have sk: "sorted_wrt (<) ks" and lt: "\<forall>j \<in> set ks. k < j"
    using Cons.prems(2) by auto
  show ?case
  proof (cases "(case m (Itoa (int k)) of None \<Rightarrow> 0 | Some v \<Rightarrow> v) = 0")
    case False
    then have "cpu_apply_loop ks num m acc = (m', acc')"
      using Cons.prems(1) by simp
    from Cons.IH [OF this sk] obtain js where
      "acc' = acc @ map (\<lambda>k. Itoa (int k)) js"
      "m' = (\<lambda>x. if x \<in> (\<lambda>k. Itoa (int k)) ` set js then Some 1 else m x)"
      "\<forall>j \<in> set js. (case m (Itoa (int j)) of None \<Rightarrow> 0 | Some v \<Rightarrow> v) = 0"
      "set js \<subseteq> set ks" "sorted_wrt (<) js"
      "int (length acc) < num \<longrightarrow> int (length acc') \<le> num"
      by blast
    moreover from this(4) have "set js \<subseteq> set (k # ks)" by auto
    ultimately show ?thesis by blast
  next
    case free: True
    show ?thesis
    proof (cases "int (length (acc @ [Itoa (int k)])) = num")
      case True
      then have "acc' = acc @ [Itoa (int k)]" and "m' = m(Itoa (int k) \<mapsto> 1)"
        using Cons.prems(1) free by auto
      then have "acc' = acc @ map (\<lambda>k. Itoa (int k)) [k]
          \<and> m' = (\<lambda>x. if x \<in> (\<lambda>k. Itoa (int k)) ` set [k] then Some 1 else m x)
          \<and> (\<forall>j \<in> set [k]. (case m (Itoa (int j)) of None \<Rightarrow> 0 | Some v \<Rightarrow> v) = 0)
          \<and> set [k] \<subseteq> set (k # ks) \<and> sorted_wrt (<) [k]
          \<and> (int (length acc) < num \<longrightarrow> int (length acc') \<le> num)"
        using free True by auto
      then show ?thesis by blast
    next
      case False
      then have "cpu_apply_loop ks num (m(Itoa (int k) \<mapsto> 1)) (acc @ [Itoa (int k)]) = (m', acc')"
        using Cons.prems(1) free by auto
      from Cons.IH [OF this sk] obtain js where
        n: "acc' = (acc @ [Itoa (int k)]) @ map (\<lambda>k. Itoa (int k)) js"
          "m' = (\<lambda>x. if x \<in> (\<lambda>k. Itoa (int k)) ` set js then Some 1
                      else (m(Itoa (int k) \<mapsto> 1)) x)"
          "\<forall>j \<in> set js. (case (m(Itoa (int k) \<mapsto> 1)) (Itoa (int j)) of
                             None \<Rightarrow> 0 | Some v \<Rightarrow> v) = 0"
          "set js \<subseteq> set ks" "sorted_wrt (<) js"
          "int (length (acc @ [Itoa (int k)])) < num \<longrightarrow> int (length acc') \<le> num"
        by blast
      have "acc' = acc @ map (\<lambda>k. Itoa (int k)) (k # js)" using n(1) by simp
      moreover have "m' = (\<lambda>x. if x \<in> (\<lambda>k. Itoa (int k)) ` set (k # js) then Some 1 else m x)"
        using n(2) by auto
      moreover have "\<forall>j \<in> set (k # js). (case m (Itoa (int j)) of None \<Rightarrow> 0 | Some v \<Rightarrow> v) = 0"
      proof
        fix j assume "j \<in> set (k # js)"
        then consider "j = k" | "j \<in> set js" by auto
        then show "(case m (Itoa (int j)) of None \<Rightarrow> 0 | Some v \<Rightarrow> v) = 0"
        proof cases
          case 1
          then show ?thesis using free by simp
        next
          case 2
          with n(3) have "(case (m(Itoa (int k) \<mapsto> 1)) (Itoa (int j)) of
                             None \<Rightarrow> 0 | Some v \<Rightarrow> v) = 0" by blast
          then show ?thesis by (cases "Itoa (int j) = Itoa (int k)") simp_all
        qed
      qed
      moreover have "set (k # js) \<subseteq> set (k # ks)" using n(4) by auto
      moreover have "sorted_wrt (<) (k # js)" using n(4) n(5) lt by auto
      moreover have "int (length acc) < num \<longrightarrow> int (length acc') \<le> num"
        using n(6) False by auto
      ultimately show ?thesis by blast
    qed
  qed
qed

lemma cpu_Apply_loop_dense:
  assumes dense: "cpu_ids_dense (dom (CpuStatusMap cs))"
    and ord: "distinct order" "set order = dom (CpuStatusMap cs)"
    and l: "cpu_apply_loop [0 ..< length (sort (map Atoi order))] num (CpuStatusMap cs) [] = (m, ap)"
  shows "\<exists>js. ap = map (\<lambda>k. Itoa (int k)) js
     \<and> m = (\<lambda>x. if x \<in> set ap then Some 1 else CpuStatusMap cs x)
     \<and> (\<forall>x \<in> set ap. CpuStatusMap cs x = Some 0)
     \<and> sorted_wrt (<) js
     \<and> (0 < num \<longrightarrow> int (length ap) \<le> num)"
proof -
  let ?ks = "[0 ..< length (sort (map Atoi order))]"
  have len: "length (sort (map Atoi order)) = card (dom (CpuStatusMap cs))"
    using ord distinct_card [of order] by simp
  have mem: "\<forall>k \<in> set ?ks. Itoa (int k) \<in> dom (CpuStatusMap cs)"
    using dense len by (simp add: cpu_ids_dense_def)
  have "sorted_wrt (<) ?ks" by simp
  from cpu_apply_loop_spec [OF l this] obtain js where
    n: "ap = [] @ map (\<lambda>k. Itoa (int k)) js"
      "m = (\<lambda>x. if x \<in> (\<lambda>k. Itoa (int k)) ` set js then Some 1 else CpuStatusMap cs x)"
      "\<forall>j \<in> set js. (case CpuStatusMap cs (Itoa (int j)) of None \<Rightarrow> 0 | Some v \<Rightarrow> v) = 0"
      "set js \<subseteq> set ?ks" "sorted_wrt (<) js"
      "int (length ([] :: string list)) < num \<longrightarrow> int (length ap) \<le> num"
    by blast
  have "\<forall>x \<in> set ap. CpuStatusMap cs x = Some 0"
  proof
    fix x assume "x \<in> set ap"
    then obtain j where j: "j \<in> set js" "x = Itoa (int j)" using n(1) by auto
    then have "x \<in> dom (CpuStatusMap cs)" using n(4) mem by auto
    then obtain v where "CpuStatusMap cs x = Some v" by auto
    with n(3) j show "CpuStatusMap cs x = Some 0" by auto
  qed
  moreover have "ap = map (\<lambda>k. Itoa (int k)) js" using n(1) by simp
  moreover from this have "m = (\<lambda>x. if x \<in> set ap then Some 1 else CpuStatusMap cs x)"
    using n(2) by simp
  ultimately show ?thesis using n(5) n(6) by auto
qed

lemma cpu_Apply_not_enough_atomic:
  assumes dense: "cpu_ids_dense (dom (CpuStatusMap cs))"
    and ord: "distinct order" "set order = dom (CpuStatusMap cs)"
    and r: "cpu_Apply order num cs = Returns cs' (Inl CpuNotEnough)"
  shows "cs' = cs"
proof -
  have ok: "\<not> (num \<le> 0 \<or> num > AvailableCpuNums cs)" and unl: "\<not> cpu_locked cs"
    using r by (auto simp: cpu_Apply_def cpu_Lock_def split: if_splits)
  obtain m ap where
    l: "cpu_apply_loop [0 ..< length (sort (map Atoi order))] num (CpuStatusMap cs) [] = (m, ap)"
    by (cases "cpu_apply_loop [0 ..< length (sort (map Atoi order))] num (CpuStatusMap cs) []")
  from cpu_Apply_loop_dense [OF dense ord l]
  have m: "m = (\<lambda>x. if x \<in> set ap then Some 1 else CpuStatusMap cs x)"
    and f: "\<forall>x \<in> set ap. CpuStatusMap cs x = Some 0"
    by blast+
  have "restore_flags ap m = CpuStatusMap cs"
    using m f by (auto simp: fun_eq_iff restore_flags_apply)
  then show ?thesis
    using r ok unl l
    by (auto simp: cpu_Apply_def cpu_Lock_def cpu_Unlock_def cpu_restore_def split: if_splits)
qed

lemma cpu_Apply_success:
  assumes dense: "cpu_ids_dense (dom (CpuStatusMap cs))"
    and ord: "distinct order" "set order = dom (CpuStatusMap cs)"
    and r: "cpu_Apply order num cs = Returns cs' (Inr cpuSet)"
  shows "\<exists>js. cpuSet = Trim (Join (map (\<lambda>k. Itoa (int k)) js) '','') '',''
     \<and> int (length js) = num \<and> sorted_wrt (<) js
     \<and> (\<forall>j \<in> set js. CpuStatusMap cs (Itoa (int j)) = Some 0
                      \<and> CpuStatusMap cs' (Itoa (int j)) = Some 1)"
proof -
  have ok: "\<not> (num \<le> 0 \<or> num > AvailableCpuNums cs)" and unl: "\<not> cpu_locked cs"
    using r by (auto simp: cpu_Apply_def cpu_Lock_def split: if_splits)
  obtain m ap where
    l: "cpu_apply_loop [0 ..< length (sort (map Atoi order))] num (CpuStatusMap cs) [] = (m, ap)"
    by (cases "cpu_apply_loop [0 ..< length (sort (map Atoi order))] num (CpuStatusMap cs) []")
  have res: "\<not> int (length ap) < num \<and> cpuSet = Trim (Join ap '','') '',''
      \<and> CpuStatusMap cs' = m"
    using r ok unl l
    by (auto simp: cpu_Apply_def cpu_Lock_def cpu_Unlock_def split: if_splits)
  from cpu_Apply_loop_dense [OF dense ord l] obtain js where
    n: "ap = map (\<lambda>k. Itoa (int k)) js"
       "m = (\<lambda>x. if x \<in> set ap then Some 1 else CpuStatusMap cs x)"
       "\<forall>x \<in> set ap. CpuStatusMap cs x = Some 0"
       "sorted_wrt (<) js"
       "0 < num \<longrightarrow> int (length ap) \<le> num"
    by blast
  have "int (length js) = num" using res n(1) n(5) ok by simp
  moreover have "\<forall>j \<in> set js. CpuStatusMap cs (Itoa (int j)) = Some 0
                      \<and> CpuStatusMap cs' (Itoa (int j)) = Some 1"
    using n(1) n(2) n(3) res by auto
  ultimately show ?thesis using res n(1) n(4) by blast
qed

subsection \<open>The ids that the CPU scheduler returns\<close>

lemma Itoa_small: "Itoa 0 = ''0''" "Itoa 1 = ''1''" "Itoa 2 = ''2''"
  by (simp_all add: Itoa_def digits.simps digit_char_def)

lemma InitCpuScheduler_2:
  "InitCpuScheduler 2
     = \<lparr> cpu_locked = False, AvailableCpuNums = 2, CpuStatusMap = [''0'' \<mapsto> 0, ''1'' \<mapsto> 0] \<rparr>"
  by (simp add: InitCpuScheduler_def numeral_2_eq_2 Itoa_small)

lemma cpus_after_restore_empty_eq:
  "cpus_after_restore_empty
     = \<lparr> cpu_locked = False, AvailableCpuNums = 2,
         CpuStatusMap = [''0'' \<mapsto> 1, ''1'' \<mapsto> 1, [] \<mapsto> 0] \<rparr>"
  by (simp add: cpus_after_restore_empty_def InitCpuScheduler_2 cpu_calls_def
      cpu_Apply_def cpu_Restore_def cpu_restore_def cpu_Lock_def cpu_Unlock_def restore_flags_def
      Itoa_small Trim_def)

text \<open>
  C6. A pool of two CPUs from \<open>InitCpuScheduler\<close>, after two \<open>Apply(1)\<close> and a
  \<open>Restore\<close> of the list with the empty string (what splitting an empty cpu-set
  string on "," gives), has both CPUs in use and the key "" free. \<open>Apply(1)\<close> then
  succeeds and returns the id \<open>2\<close>, which is not a key of the pool: the loop ranges
  over the indices of the three keys, not over the keys.
\<close>

theorem cpu_Apply_returns_non_member:
  "cpus_after_restore_empty
     = \<lparr> cpu_locked = False, AvailableCpuNums = 2,
         CpuStatusMap = [''0'' \<mapsto> 1, ''1'' \<mapsto> 1, [] \<mapsto> 0] \<rparr>
   \<and> result_of (cpu_Apply [[], ''0'', ''1''] 1 cpus_after_restore_empty) = Some (Inr ''2'')
   \<and> CpuStatusMap cpus_after_restore_empty ''2'' = None"
  by (simp add: cpus_after_restore_empty_eq cpu_Apply_def cpu_Lock_def cpu_Unlock_def
      Itoa_small Trim_def)


lemmas run_defs = RunGpuContainer_def run_cpu_def run_memory_def run_create_def run_failed_def
  runContainer_def create_and_start_def clear_version_def startContainer_def
  version_Get_def version_Set_def version_Remove_def port_Apply_def port_Restore_def
  gpu_Apply_def gpu_Restore_def gpu_Lock_def gpu_Unlock_def
  cpu_Apply_def cpu_Restore_def cpu_restore_def cpu_Lock_def cpu_Unlock_def restore_flags_def
  Itoa_def digits.simps digit_char_def Trim_def HasPrefix_def

lemmas delete_defs = DeleteContainer_def delete_record_def delete_restore_def deleteMergeMap_def
  containerStatusRunning_def containerStatusPaused_def filepath_Join_def RemoveAll_def
  version_Get_def version_Remove_def Itoa_def digits.simps digit_char_def

section \<open>Properties of the controller\<close>

text \<open>
  C1. A run that asks for one GPU, one CPU and one port, on pools where all are free,
  and whose container creation fails: \<open>RunGpuContainer\<close> returns the failure, with
  the GPU and the CPU restored, and with host port 40000, free before the call, still
  flagged in use. No path of \<open>RunGpuContainer\<close> or \<open>runContainer\<close> restores ports.
\<close>

theorem RunGpuContainer_leaks_port:
  "result_of (RunGpuContainer runtime_create_fails job pools2) = Some (Inl (RuntimeError ''create''))
   \<and> PortStatusMap (PortScheduler pools2) ''40000'' = Some 0
   \<and> PortStatusMap (PortScheduler (state_of (RunGpuContainer runtime_create_fails job pools2))) ''40000''
       = Some 1
   \<and> GpuStatusMap (GpuScheduler (state_of (RunGpuContainer runtime_create_fails job pools2))) ''GPU-0''
       = Some 0
   \<and> CpuStatusMap (CpuScheduler (state_of (RunGpuContainer runtime_create_fails job pools2))) ''0''
       = Some 0"
  by (simp add: run_defs runtime_create_fails_def runtime_ok_def job_def pools2_def)

text \<open>
  A failed container creation runs the deferred function: the registry gets the
  previous version of the name back, or loses the entry when that version was 0.
\<close>

lemma runContainer_create_failure_clears_version:
  assumes "HostConfig_PortBindings info = []"
    and "ContainerCreate rt (name @ ''-'' @ Itoa (fst (version_Get (ContainerVersionMap w) name) + 1))
           = Inl err"
  shows "runContainer rt name info onlyCreate w
    = Returns (w\<lparr>ContainerVersionMap :=
                  (if fst (version_Get (ContainerVersionMap w) name) = 0
                   then (ContainerVersionMap w)(name := None)
                   else (ContainerVersionMap w)(name \<mapsto> fst (version_Get (ContainerVersionMap w) name)))\<rparr>)
        (Inl err)"
  using assms
  by (simp add: runContainer_def create_and_start_def clear_version_def Let_def
      version_Set_def version_Remove_def)

text \<open>
  C4. \<open>runContainer\<close> for a name with no version, with one port binding, on a port
  pool with nothing free: it returns \<open>PortNotEnough\<close> and leaves version 1 in the
  registry, though no container was created. The next run of the name, which
  succeeds, creates the first container of the name as \<open>job-2\<close>.
\<close>

theorem runContainer_port_failure_keeps_version:
  "ContainerVersionMap ports_exhausted ''job'' = None
   \<and> result_of (runContainer runtime_ok ''job'' info22 False ports_exhausted) = Some (Inl PortNotEnough)
   \<and> ContainerVersionMap (state_of (runContainer runtime_ok ''job'' info22 False ports_exhausted)) ''job''
       = Some 1
   \<and> (\<exists>w respID kv. runContainer runtime_ok ''job'' info_no_ports False
          (state_of (runContainer runtime_ok ''job'' info22 False ports_exhausted))
        = Returns w (Inr (respID, ''job-2'', kv)))"
  by (simp add: Let_def run_defs runtime_ok_def ports_exhausted_def pools2_def info22_def
      info_no_ports_def)

text \<open>
  C5. \<open>DeleteContainer\<close> of the replica set \<open>my-job\<close>, whose live container is
  stopped: it succeeds, the delete of \<open>containers/my-job\<close> is enqueued and the
  preserved overlay below \<open>merges/my\<close> is gone, but the registry still has the entry
  of \<open>my-job\<close>; the entry removed is that of the other replica set \<open>my\<close>.
\<close>

theorem DeleteContainer_keeps_hyphenated_name:
  "result_of (DeleteContainer runtime_ok ''my-job'' my_job_world) = Some None
   \<and> Queue (state_of (DeleteContainer runtime_ok ''my-job'' my_job_world)) = [DelKey Containers ''my-job'']
   \<and> [''merges'', ''my'', ''my-job-1''] \<notin> files (state_of (DeleteContainer runtime_ok ''my-job'' my_job_world))
   \<and> ContainerVersionMap (state_of (DeleteContainer runtime_ok ''my-job'' my_job_world)) ''my-job'' = Some 2
   \<and> ContainerVersionMap my_job_world ''my'' = Some 1
   \<and> ContainerVersionMap (state_of (DeleteContainer runtime_ok ''my-job'' my_job_world)) ''my'' = None"
  by (simp add: delete_defs runtime_ok_def my_job_world_def pools2_def stopped_def)

end
